theory Spec2Isabelle
  imports Complex_Main "HOL-Library.Sublist"
begin

section \<open>Geometry read from the DOM\<close>

text \<open>
  The marker system of \<^verbatim>\<open>advanced-marker-system.js\<close> reads pixel values from the
  browser and does arithmetic on them. A JavaScript number is an IEEE 754 double; it is
  modelled by the real number it denotes. The results of \<^verbatim>\<open>Math.round\<close> are
  integers.
\<close>

record rect =
  rect_top :: real
  rect_left :: real
  rect_width :: real
  rect_height :: real

text \<open>
  An element, as far as the system looks at it: its identity, the rectangle returned by
  \<^verbatim>\<open>getBoundingClientRect()\<close>, the four layout properties read from the panel, and
  whether it is an element of class \<^verbatim>\<open>number-marker\<close> or lies inside one.
\<close>

record element =
  node :: nat
  boundingClientRect :: rect
  offsetWidth :: real
  offsetHeight :: real
  scrollTop :: real
  scrollLeft :: real
  in_marker :: bool

record options =
  markerSize :: real
  markerOffset :: real
  debugMode :: bool
  autoPosition :: bool

text \<open>
  The selector of a registry entry is a query string or a list of fallback query
  strings; any other value (also a missing one) is \<open>NoSelector\<close>.
\<close>

datatype selector = Query string | Queries "string list" | NoSelector

record item =
  selector :: selector
  description :: "string option"
  preferredPosition :: "string option"
  number :: nat

record position =
  pos_top :: int
  pos_left :: int

section \<open>The position resolver\<close>

text \<open>\<^verbatim>\<open>a || b\<close> on an optional string: a missing or empty string is falsy.\<close>

definition or_default :: "string option \<Rightarrow> string \<Rightarrow> string" where
  "or_default v d = (case v of None \<Rightarrow> d | Some s \<Rightarrow> if s = [] then d else s)"

text \<open>\<^verbatim>\<open>Math.round\<close>: the nearest integer, a half rounded up.\<close>

definition Math_round :: "real \<Rightarrow> int" where
  "Math_round x = \<lfloor>x + 1 / 2\<rfloor>"

text \<open>
  \<^verbatim>\<open>calculateOptimalPosition\<close>, lines 186 to 240, in its four stages. The first
  is the relative position and the \<^verbatim>\<open>switch\<close> on the preferred position. The
  arithmetic of the first two stages is taken exactly.
\<close>

definition adjusted :: "options \<Rightarrow> rect \<Rightarrow> rect \<Rightarrow> string option \<Rightarrow> real \<times> real" where
  "adjusted opts elementRect panelRect pp =
    (let relativeTop = rect_top elementRect - rect_top panelRect;
         relativeLeft = rect_left elementRect - rect_left panelRect;
         preferred = or_default pp ''top-left'';
         offset = markerOffset opts;
         size = markerSize opts
     in if preferred = ''top-left'' then
          (relativeTop - offset, relativeLeft - offset)
        else if preferred = ''top-right'' then
          (relativeTop - offset, relativeLeft + (rect_width elementRect - size + offset))
        else if preferred = ''bottom-left'' then
          (relativeTop + (rect_height elementRect - size + offset), relativeLeft - offset)
        else if preferred = ''bottom-right'' then
          (relativeTop + (rect_height elementRect - size + offset),
           relativeLeft + (rect_width elementRect - size + offset))
        else if preferred = ''center'' then
          (relativeTop + (rect_height elementRect - size) / 2,
           relativeLeft + (rect_width elementRect - size) / 2)
        else
          (relativeTop - offset, relativeLeft - offset))"

text \<open>The bounds check of lines 226 to 230.\<close>

definition clamped :: "options \<Rightarrow> element \<Rightarrow> real \<times> real \<Rightarrow> real \<times> real" where
  "clamped opts leftPanel p =
    (let panelWidth = offsetWidth leftPanel;
         panelHeight = offsetHeight leftPanel
     in (max 0 (min (fst p) (panelHeight - markerSize opts)),
         max 0 (min (snd p) (panelWidth - markerSize opts))))"

text \<open>The position before the scroll correction: the first two stages together.\<close>

definition beforeScroll :: "options \<Rightarrow> element \<Rightarrow> element \<Rightarrow> item \<Rightarrow> real \<times> real" where
  "beforeScroll opts el leftPanel config =
    clamped opts leftPanel
      (adjusted opts (boundingClientRect el) (boundingClientRect leftPanel)
         (preferredPosition config))"

subsection \<open>Addition of doubles\<close>

text \<open>
  The sum of two doubles is the exact sum rounded to the nearest double, a tie going to
  the double with the even significand. A double has a significand of 53 bits and an
  exponent between \<open>e_min\<close> and \<open>e_max\<close>; \<open>binade x\<close> is the exponent of the doubles
  around \<open>x\<close>, that is the least exponent \<open>e\<close> from \<open>e_min\<close> on with
  \<open>\<bar>x\<bar> < 2 powi (e + 1)\<close>, and neighbouring doubles around \<open>x\<close> are
  \<open>2 powi (binade x - 52)\<close> apart. Sums of magnitude \<open>2 powi 1024\<close> and more,
  which double arithmetic turns into an infinity, are outside the model.
\<close>

definition e_min :: int where
  "e_min = - 1022"

definition e_max :: int where
  "e_max = 1023"

definition binade :: "real \<Rightarrow> int" where
  "binade x =
    (case List.find (\<lambda>e. \<bar>x\<bar> < 2 powi (e + 1)) [e_min .. e_max] of
       Some e \<Rightarrow> e | None \<Rightarrow> e_max)"

definition round_ties_even :: "real \<Rightarrow> int" where
  "round_ties_even r =
    (let f = \<lfloor>r\<rfloor>
     in if r - of_int f < 1 / 2 then f
        else if 1 / 2 < r - of_int f then f + 1
        else if even f then f else f + 1)"

definition to_double :: "real \<Rightarrow> real" where
  "to_double x =
    (let ulp = 2 powi (binade x - 52)
     in of_int (round_ties_even (x / ulp)) * ulp)"

text \<open>
  \<^verbatim>\<open>x + y\<close> on doubles. Adding zero returns the other operand as it is, which is what
  the rounded sum gives for every double.
\<close>

definition double_add :: "real \<Rightarrow> real \<Rightarrow> real" where
  "double_add x y = (if y = 0 then x else if x = 0 then y else to_double (x + y))"

text \<open>
  The scroll correction of lines 233 and 234, \<^verbatim>\<open>relativeTop += leftPanel.scrollTop\<close>
  and \<^verbatim>\<open>relativeLeft += leftPanel.scrollLeft\<close>.
\<close>

definition scrolled :: "element \<Rightarrow> real \<times> real \<Rightarrow> real \<times> real" where
  "scrolled leftPanel p =
    (double_add (fst p) (scrollTop leftPanel), double_add (snd p) (scrollLeft leftPanel))"

definition calculateOptimalPosition :: "options \<Rightarrow> element \<Rightarrow> element \<Rightarrow> item \<Rightarrow> position" where
  "calculateOptimalPosition opts el leftPanel config =
    (let p = scrolled leftPanel (beforeScroll opts el leftPanel config)
     in \<lparr>pos_top = Math_round (fst p), pos_left = Math_round (snd p)\<rparr>)"

subsection \<open>The adjustment table of the specification\<close>

text \<open>
  The specification enumerates five placements and tabulates one adjustment for each.
  \<open>spec_adjusted\<close> is that table, written from the specification's words, to be
  compared with \<open>adjusted\<close>, which is written from the code.
\<close>

datatype placement = TopLeft | TopRight | BottomLeft | BottomRight | Center

fun placement_name :: "placement \<Rightarrow> string" where
  "placement_name TopLeft = ''top-left''"
| "placement_name TopRight = ''top-right''"
| "placement_name BottomLeft = ''bottom-left''"
| "placement_name BottomRight = ''bottom-right''"
| "placement_name Center = ''center''"

fun spec_adjusted :: "placement \<Rightarrow> real \<Rightarrow> real \<Rightarrow> rect \<Rightarrow> real \<times> real \<Rightarrow> real \<times> real" where
  "spec_adjusted TopLeft msize offset elementRect (relTop, relLeft) =
     (relTop - offset, relLeft - offset)"
| "spec_adjusted TopRight msize offset elementRect (relTop, relLeft) =
     (relTop - offset, relLeft + (rect_width elementRect - msize + offset))"
| "spec_adjusted BottomLeft msize offset elementRect (relTop, relLeft) =
     (relTop + (rect_height elementRect - msize + offset), relLeft - offset)"
| "spec_adjusted BottomRight msize offset elementRect (relTop, relLeft) =
     (relTop + (rect_height elementRect - msize + offset),
      relLeft + (rect_width elementRect - msize + offset))"
| "spec_adjusted Center msize offset elementRect (relTop, relLeft) =
     (relTop + (rect_height elementRect - msize) / 2,
      relLeft + (rect_width elementRect - msize) / 2)"

definition spec_relative :: "rect \<Rightarrow> rect \<Rightarrow> real \<times> real" where
  "spec_relative elementRect containerRect =
     (rect_top elementRect - rect_top containerRect,
      rect_left elementRect - rect_left containerRect)"

section \<open>The page name\<close>

text \<open>
  Strings are lists of characters. The three string operations the code uses:
  \<^verbatim>\<open>split\<close> at a separator character, \<^verbatim>\<open>replace\<close> with a string pattern,
  which replaces the first occurrence only, and \<^verbatim>\<open>replace(/-/g, ' ')\<close>, which
  replaces every dash.
\<close>

fun js_split :: "char \<Rightarrow> string \<Rightarrow> string list" where
  "js_split sep [] = [[]]"
| "js_split sep (c # cs) =
     (if c = sep then [] # js_split sep cs
      else (case js_split sep cs of [] \<Rightarrow> [[c]] | w # ws \<Rightarrow> (c # w) # ws))"

text \<open>\<^verbatim>\<open>pop\<close> on the segments: \<open>js_split\<close> never returns the empty list.\<close>

definition pop :: "string list \<Rightarrow> string" where
  "pop segments = last segments"

fun js_replace :: "string \<Rightarrow> string \<Rightarrow> string \<Rightarrow> string" where
  "js_replace pat rep [] = (if pat = [] then rep else [])"
| "js_replace pat rep (c # cs) =
     (if prefix pat (c # cs) then rep @ drop (length pat) (c # cs)
      else c # js_replace pat rep cs)"

definition dashes_to_spaces :: "string \<Rightarrow> string" where
  "dashes_to_spaces s = map (\<lambda>c. if c = CHR ''-'' then CHR '' '' else c) s"

text \<open>\<^verbatim>\<open>getCurrentPageName\<close>, lines 55 to 66, as a function of the path.\<close>

definition getCurrentPageName :: "string \<Rightarrow> string" where
  "getCurrentPageName path =
    (let filename = pop (js_split CHR ''/'' path);
         pageName = js_replace ''.html'' [] (js_replace ''_N.html'' [] filename)
     in dashes_to_spaces pageName)"

text \<open>
  The lookup key of \<^verbatim>\<open>addDynamicMarkers\<close> in the second script (line 22): only
  \<^verbatim>\<open>_N.html\<close> is removed, and dashes stay.
\<close>

definition currentPage :: "string \<Rightarrow> string" where
  "currentPage path = js_replace ''_N.html'' [] (pop (js_split CHR ''/'' path))"

subsection \<open>The page identifier of the specification\<close>

text \<open>
  Written from the specification's words: the last segment of the path, a known suffix
  stripped, separators turned into spaces.
\<close>

definition spec_last_segment :: "string \<Rightarrow> string" where
  "spec_last_segment path = rev (takeWhile (\<lambda>c. c \<noteq> CHR ''/'') (rev path))"

definition spec_strip_suffix :: "string \<Rightarrow> string" where
  "spec_strip_suffix s =
    (if suffix ''_N.html'' s then take (length s - 7) s
     else if suffix ''.html'' s then take (length s - 5) s
     else s)"

definition spec_pageIdentifier :: "string \<Rightarrow> string" where
  "spec_pageIdentifier path = dashes_to_spaces (spec_strip_suffix (spec_last_segment path))"

text \<open>Whether a pattern occurs somewhere in a string.\<close>

fun occurs :: "string \<Rightarrow> string \<Rightarrow> bool" where
  "occurs pat [] = (pat = [])"
| "occurs pat (c # cs) = (prefix pat (c # cs) \<or> occurs pat cs)"

section \<open>The document and the update pass\<close>

text \<open>
  A rendered marker: the panel it was appended to, its position, its number and its
  title (the description, or a default title made from the number).
\<close>

datatype title = Description string | DefaultTitle nat

record marker =
  parent :: element
  style_position :: position
  style_size :: real
  textContent :: nat
  marker_title :: title

text \<open>The messages the system passes to its \<^verbatim>\<open>log\<close>, by their template.\<close>

datatype message =
    NoConfiguration string
  | LeftPanelNotFound
  | ElementNotFound selector
  | CreatedMarker nat int int "string option"

text \<open>
  \<^verbatim>\<open>document.querySelector\<close> raises a \<^verbatim>\<open>SyntaxError\<close> for a string that is not
  a selector; the code catches nothing, so the exception ends the pass.
\<close>

datatype error = SyntaxError string

text \<open>
  The document as the pass sees it. Fixed during a pass are the path of its location,
  the strings that are not selectors, what \<^verbatim>\<open>document.querySelector\<close> finds for a
  selector, and \<^verbatim>\<open>document.body\<close> (null in a document without a body element). A
  marker is an element of the document like any other, so what a selector finds is a
  function of the elements of class \<^verbatim>\<open>number-marker\<close> that are in the document. These,
  in document order, and the console are what the pass changes.
\<close>

record document =
  pathname :: string
  invalid :: "string \<Rightarrow> bool"
  matching :: "marker list \<Rightarrow> string \<Rightarrow> element option"
  body :: "element option"
  markers :: "marker list"
  console :: "message list"

text \<open>The instance: its options and the registry of page configurations.\<close>

record ams =
  this_options :: options
  pageConfigs :: "string \<Rightarrow> item list option"

definition log :: "ams \<Rightarrow> message \<Rightarrow> document \<Rightarrow> document" where
  "log this msg d =
    (if debugMode (this_options this) then d\<lparr>console := console d @ [msg]\<rparr> else d)"

definition document_querySelector :: "document \<Rightarrow> string \<Rightarrow> error + element option" where
  "document_querySelector d q =
    (if invalid d q then Inl (SyntaxError q) else Inr (matching d (markers d) q))"

text \<open>\<^verbatim>\<open>findElement\<close>, lines 167 to 181; \<open>first_found\<close> is its loop over an array.\<close>

fun first_found :: "document \<Rightarrow> string list \<Rightarrow> error + element option" where
  "first_found d [] = Inr None"
| "first_found d (sel # sels) =
     (case document_querySelector d sel of
        Inl e \<Rightarrow> Inl e
      | Inr (Some el) \<Rightarrow> Inr (Some el)
      | Inr None \<Rightarrow> first_found d sels)"

fun findElement :: "document \<Rightarrow> selector \<Rightarrow> error + element option" where
  "findElement d (Query s) = document_querySelector d s"
| "findElement d (Queries ss) = first_found d ss"
| "findElement d NoSelector = Inr None"

text \<open>
  \<^verbatim>\<open>getLeftPanel\<close>, lines 289 to 306. Its five candidates are selectors, on which
  \<^verbatim>\<open>document.querySelector\<close> does not raise, so the loop is a search through what
  they find.
\<close>

definition panel_selectors :: "string list" where
  "panel_selectors =
    [''.left-panel'', ''.original-content'', ''.container .left-panel'',
     ''.container > div:first-child'', ''.main-content'']"

fun first_match :: "document \<Rightarrow> string list \<Rightarrow> element option" where
  "first_match d [] = None"
| "first_match d (sel # sels) =
     (case matching d (markers d) sel of Some e \<Rightarrow> Some e | None \<Rightarrow> first_match d sels)"

definition getLeftPanel :: "document \<Rightarrow> element option" where
  "getLeftPanel d =
    (case first_match d panel_selectors of Some e \<Rightarrow> Some e | None \<Rightarrow> body d)"

text \<open>
  \<^verbatim>\<open>clearExistingMarkers\<close> removes every marker from the document, and with it what
  lies inside it. An element that was a marker or inside one is then outside the
  document, where it has no layout: its rectangle, its offset size and its scroll
  offsets are zero.
\<close>

definition clearExistingMarkers :: "document \<Rightarrow> document" where
  "clearExistingMarkers d = d\<lparr>markers := []\<rparr>"

definition after_clear :: "element \<Rightarrow> element" where
  "after_clear e =
    (if in_marker e
     then e\<lparr>boundingClientRect := \<lparr>rect_top = 0, rect_left = 0, rect_width = 0, rect_height = 0\<rparr>,
            offsetWidth := 0, offsetHeight := 0, scrollTop := 0, scrollLeft := 0\<rparr>
     else e)"

text \<open>
  \<^verbatim>\<open>createMarker\<close>, lines 245 to 284, which the pass calls after the markers have
  been cleared. The new marker is appended to the container; it is in the document when
  the container is, that is unless the container went out with the cleared markers.
\<close>

definition new_marker :: "ams \<Rightarrow> element \<Rightarrow> position \<Rightarrow> nat \<Rightarrow> string option \<Rightarrow> marker" where
  "new_marker this container pos n desc =
    \<lparr>parent = container, style_position = pos,
     style_size = markerSize (this_options this), textContent = n,
     marker_title = (case desc of None \<Rightarrow> DefaultTitle n
                     | Some s \<Rightarrow> if s = [] then DefaultTitle n else Description s)\<rparr>"

definition createMarker ::
  "ams \<Rightarrow> element \<Rightarrow> position \<Rightarrow> nat \<Rightarrow> string option \<Rightarrow> document \<Rightarrow> document" where
  "createMarker this container pos n desc d =
    log this (CreatedMarker n (pos_top pos) (pos_left pos) desc)
      (if in_marker container then d
       else d\<lparr>markers := markers d @ [new_marker this container pos n desc]\<rparr>)"

text \<open>
  The body of the \<^verbatim>\<open>forEach\<close> of lines 153 to 161, and the loop itself. The result
  is the document as the step leaves it, with the exception if the step raised one; an
  exception ends the loop.
\<close>

definition update_item :: "ams \<Rightarrow> element \<Rightarrow> item \<Rightarrow> document \<Rightarrow> error option \<times> document" where
  "update_item this leftPanel it d =
    (case findElement d (selector it) of
       Inl e \<Rightarrow> (Some e, d)
     | Inr (Some el) \<Rightarrow>
         (None, createMarker this leftPanel
           (calculateOptimalPosition (this_options this) el leftPanel it)
           (number it) (description it) d)
     | Inr None \<Rightarrow> (None, log this (ElementNotFound (selector it)) d))"

fun update_items :: "ams \<Rightarrow> element \<Rightarrow> item list \<Rightarrow> document \<Rightarrow> error option \<times> document" where
  "update_items this leftPanel [] d = (None, d)"
| "update_items this leftPanel (it # rest) d =
     (case update_item this leftPanel it d of
        (Some e, d') \<Rightarrow> (Some e, d')
      | (None, d') \<Rightarrow> update_items this leftPanel rest d')"

definition updateAllMarkers :: "ams \<Rightarrow> document \<Rightarrow> error option \<times> document" where
  "updateAllMarkers this d =
    (let pageName = getCurrentPageName (pathname d)
     in case pageConfigs this pageName of
          None \<Rightarrow> (None, log this (NoConfiguration pageName) d)
        | Some config \<Rightarrow>
            (case getLeftPanel d of
               None \<Rightarrow> (None, log this LeftPanelNotFound d)
             | Some leftPanel \<Rightarrow>
                 update_items this (after_clear leftPanel) config (clearExistingMarkers d)))"

subsection \<open>The rendering of the specification\<close>

text \<open>
  Written from the specification's words: for each entry of the page, in order, the
  anchor is looked up in the document without markers; an entry without anchor is
  skipped, and an entry with an anchor gets a marker at the position the resolver
  computes, with the label and the description of the entry.
\<close>

fun queries :: "selector \<Rightarrow> string list" where
  "queries (Query s) = [s]"
| "queries (Queries ss) = ss"
| "queries NoSelector = []"



section \<open>Timers and the listeners\<close>

text \<open>
  The only function the system ever hands to \<^verbatim>\<open>debounce\<close> is
  \<^verbatim>\<open>() => this.updateAllMarkers()\<close>.
\<close>

datatype task = RunUpdateAllMarkers

text \<open>
  \<^verbatim>\<open>debounce(func, wait)\<close> returns a function that closes over \<^verbatim>\<open>func\<close>,
  \<^verbatim>\<open>wait\<close> and a variable \<^verbatim>\<open>timeout\<close> of its own, which starts undefined.
\<close>

record debounced =
  closure_func :: task
  closure_wait :: nat
  closure_timeout :: "nat option"

text \<open>
  The browser around the instance: the document, the pending timers (handle, time at
  which the timer fires, what it runs), the clock in milliseconds and the next free
  handle. A timer set by the debounced function runs \<^verbatim>\<open>later\<close> (lines 351 to 354),
  which clears its own handle, by then fired, and calls \<^verbatim>\<open>func\<close>; the timer
  therefore carries \<^verbatim>\<open>func\<close>. \<open>passes\<close> counts the runs of \<^verbatim>\<open>updateAllMarkers\<close> started by a timer or
  by the font promise; it is an observer, nothing in the model reads it.
\<close>

record browser =
  marker_system :: ams
  page :: document
  timers :: "(nat \<times> nat \<times> task) list"
  clock :: nat
  next_handle :: nat
  passes :: nat

definition setTimeout :: "task \<Rightarrow> nat \<Rightarrow> browser \<Rightarrow> nat \<times> browser" where
  "setTimeout t wait b =
    (next_handle b,
     b\<lparr>timers := timers b @ [(next_handle b, clock b + wait, t)],
       next_handle := Suc (next_handle b)\<rparr>)"

definition clearTimeout :: "nat option \<Rightarrow> browser \<Rightarrow> browser" where
  "clearTimeout h b =
    (case h of None \<Rightarrow> b
     | Some k \<Rightarrow> b\<lparr>timers := filter (\<lambda>t. fst t \<noteq> k) (timers b)\<rparr>)"

definition debounce :: "task \<Rightarrow> nat \<Rightarrow> debounced" where
  "debounce func wait = \<lparr>closure_func = func, closure_wait = wait, closure_timeout = None\<rparr>"

text \<open>A call of the function that \<^verbatim>\<open>debounce\<close> returned (lines 350 to 357).\<close>

definition executedFunction :: "debounced \<Rightarrow> browser \<Rightarrow> debounced \<times> browser" where
  "executedFunction f b =
    (let b1 = clearTimeout (closure_timeout f) b;
         (h, b2) = setTimeout (closure_func f) (closure_wait f) b1
     in (f\<lparr>closure_timeout := Some h\<rparr>, b2))"

text \<open>
  A task run by the browser. An exception that the pass raises ends the task; the
  document stays as the pass left it.
\<close>

definition run_task :: "task \<Rightarrow> browser \<Rightarrow> browser" where
  "run_task t b =
    (case t of RunUpdateAllMarkers \<Rightarrow>
       b\<lparr>page := snd (updateAllMarkers (marker_system b) (page b)),
         passes := Suc (passes b)\<rparr>)"

text \<open>
  The listener of line 30, \<^verbatim>\<open>() => this.debounce(() => this.updateAllMarkers(), 250)\<close>,
  and the observer callback of lines 322 to 324: each evaluates \<^verbatim>\<open>debounce\<close> and
  returns. The first component is the value of the call, the second the browser after it.
\<close>

definition resize_listener :: "browser \<Rightarrow> debounced \<times> browser" where
  "resize_listener b = (debounce RunUpdateAllMarkers 250, b)"

definition mutation_callback :: "browser \<Rightarrow> debounced \<times> browser" where
  "mutation_callback b = (debounce RunUpdateAllMarkers 500, b)"

text \<open>
  What can happen to the browser: a resize of the window, a mutation of the document,
  the font promise resolving (line 34), and time passing. The browser drops what a
  listener returns. When time passes, the timers that are due run in the order of their
  firing times and are removed.
\<close>

datatype event = Resize | Mutation | FontsReady | Elapse nat

definition fire_due :: "browser \<Rightarrow> browser" where
  "fire_due b =
    (let due = sort_key (\<lambda>t. fst (snd t)) (filter (\<lambda>t. fst (snd t) \<le> clock b) (timers b));
         b1 = b\<lparr>timers := filter (\<lambda>t. \<not> fst (snd t) \<le> clock b) (timers b)\<rparr>
     in fold (\<lambda>t. run_task (snd (snd t))) due b1)"

fun dispatch :: "event \<Rightarrow> browser \<Rightarrow> browser" where
  "dispatch Resize b = snd (resize_listener b)"
| "dispatch Mutation b = snd (mutation_callback b)"
| "dispatch FontsReady b = run_task RunUpdateAllMarkers b"
| "dispatch (Elapse dt) b = fire_due (b\<lparr>clock := clock b + dt\<rparr>)"

fun run :: "event list \<Rightarrow> browser \<Rightarrow> browser" where
  "run [] b = b"
| "run (e # es) b = run es (dispatch e b)"

section \<open>Concrete inputs\<close>

text \<open>
  The options of the global instance (line 412), a panel of 400 by 800 pixels at the
  origin of the viewport, a panel smaller than a marker, and a few anchor elements.
\<close>

definition global_options :: options where
  "global_options = \<lparr>markerSize = 24, markerOffset = 8, debugMode = True, autoPosition = True\<rparr>"

definition at_rect :: "real \<Rightarrow> real \<Rightarrow> real \<Rightarrow> real \<Rightarrow> rect" where
  "at_rect t l w h = \<lparr>rect_top = t, rect_left = l, rect_width = w, rect_height = h\<rparr>"

definition panel_400x800 :: element where
  "panel_400x800 =
    \<lparr>node = 0, boundingClientRect = at_rect 0 0 400 800, offsetWidth = 400,
     offsetHeight = 800, scrollTop = 0, scrollLeft = 0, in_marker = False\<rparr>"

definition panel_10x10 :: element where
  "panel_10x10 =
    \<lparr>node = 0, boundingClientRect = at_rect 0 0 10 10, offsetWidth = 10,
     offsetHeight = 10, scrollTop = 0, scrollLeft = 0, in_marker = False\<rparr>"

definition anchor :: "nat \<Rightarrow> rect \<Rightarrow> element" where
  "anchor n r =
    \<lparr>node = n, boundingClientRect = r, offsetWidth = rect_width r,
     offsetHeight = rect_height r, scrollTop = 0, scrollLeft = 0, in_marker = False\<rparr>"

definition entry :: "string \<Rightarrow> string option \<Rightarrow> nat \<Rightarrow> item" where
  "entry q pp n = \<lparr>selector = Query q, description = None, preferredPosition = pp, number = n\<rparr>"

text \<open>
  A document at \<^verbatim>\<open>/mockup/2-1-home_N.html\<close> with a left panel, a button and a
  banner, in which the empty string is not a selector and no selector finds a marker;
  the same document with a marker left from before; a document at the same path in
  which no selector matches and which has no body element; the first document with no
  match for any selector; the first document at a path that is not registered.
\<close>

definition home_document :: document where
  "home_document =
    \<lparr>pathname = ''/mockup/2-1-home_N.html'',
     invalid = (\<lambda>q. q = []),
     matching = (\<lambda>ms q. if q = ''.left-panel'' then Some panel_400x800
                        else if q = ''button.p-2'' then Some (anchor 1 (at_rect 20 300 60 40))
                        else if q = ''.banner'' then Some (anchor 2 (at_rect 100 0 400 200))
                        else None),
     body = Some (anchor 3 (at_rect 0 0 1200 800)),
     markers = [],
     console = []\<rparr>"

definition stale_marker :: marker where
  "stale_marker =
    \<lparr>parent = panel_400x800, style_position = \<lparr>pos_top = 5, pos_left = 5\<rparr>, style_size = 24,
     textContent = 7, marker_title = DefaultTitle 7\<rparr>"

definition stale_document :: document where
  "stale_document = home_document\<lparr>markers := [stale_marker]\<rparr>"

definition bodyless_document :: document where
  "bodyless_document =
    \<lparr>pathname = ''/mockup/2-1-home_N.html'', invalid = (\<lambda>q. q = []),
     matching = (\<lambda>ms q. None), body = None, markers = [], console = []\<rparr>"

definition body_only_document :: document where
  "body_only_document = home_document\<lparr>matching := (\<lambda>ms q. None)\<rparr>"

definition other_document :: document where
  "other_document = home_document\<lparr>pathname := ''/mockup/9-9-other.html''\<rparr>"

text \<open>
  A document at the same path whose markup is one empty \<^verbatim>\<open>div\<close> of classes
  \<^verbatim>\<open>container\<close> and \<^verbatim>\<open>main-content\<close> and, outside it, the button. A marker
  appended to the \<^verbatim>\<open>div\<close> becomes its first child, which the candidate
  \<^verbatim>\<open>.container > div:first-child\<close> then finds.
\<close>

definition marker_element :: "marker \<Rightarrow> element" where
  "marker_element m =
    \<lparr>node = 100,
     boundingClientRect =
       at_rect (real_of_int (pos_top (style_position m))) (real_of_int (pos_left (style_position m)))
         (style_size m) (style_size m),
     offsetWidth = style_size m, offsetHeight = style_size m, scrollTop = 0, scrollLeft = 0,
     in_marker = True\<rparr>"

definition container_document :: document where
  "container_document =
    \<lparr>pathname = ''/mockup/2-1-home_N.html'',
     invalid = (\<lambda>q. q = []),
     matching = (\<lambda>ms q. if q = ''.container > div:first-child''
                          then (case ms of [] \<Rightarrow> None | m # _ \<Rightarrow> Some (marker_element m))
                        else if q = ''.main-content'' then Some panel_400x800
                        else if q = ''button.p-2'' then Some (anchor 1 (at_rect 20 300 60 40))
                        else None),
     body = Some (anchor 3 (at_rect 0 0 1200 800)),
     markers = [],
     console = []\<rparr>"

text \<open>
  An instance whose registry has three entries for the page \<^verbatim>\<open>2 1 home\<close>, the second
  of them with a selector that matches nothing; the same entries with an empty string
  for the second selector; an instance with the default options of line 11, in which
  \<^verbatim>\<open>debugMode\<close> is off.
\<close>

definition home_config :: "item list" where
  "home_config =
    [entry ''button.p-2'' (Some ''top-right'') 1,
     entry ''.swiper-container'' (Some ''center'') 2,
     entry ''.banner'' (Some ''center'') 3]"

definition malformed_config :: "item list" where
  "malformed_config =
    [entry ''button.p-2'' (Some ''top-right'') 1,
     entry [] (Some ''center'') 2,
     entry ''.banner'' (Some ''center'') 3]"

definition home_system :: ams where
  "home_system =
    \<lparr>this_options = global_options,
     pageConfigs = (\<lambda>name. if name = ''2 1 home'' then Some home_config else None)\<rparr>"

definition quiet_system :: ams where
  "quiet_system = home_system\<lparr>this_options := global_options\<lparr>debugMode := False\<rparr>\<rparr>"

text \<open>
  A browser showing the first document, with the instance set up, no timer pending and
  no pass counted.
\<close>

definition idle_browser :: browser where
  "idle_browser =
    \<lparr>marker_system = home_system, page = home_document, timers = [], clock = 0,
     next_handle = 1, passes = 0\<rparr>"

section \<open>Properties of the position resolver\<close>

lemmas example_defs =
  global_options_def at_rect_def panel_400x800_def panel_10x10_def anchor_def entry_def

lemmas resolver_defs =
  beforeScroll_def clamped_def adjusted_def or_default_def scrolled_def double_add_def
  calculateOptimalPosition_def Math_round_def

lemma Math_round_nearest: "\<bar>real_of_int (Math_round x) - x\<bar> \<le> 1 / 2"
  unfolding Math_round_def by linarith

lemma Math_round_of_int: "Math_round (real_of_int k) = k"
  unfolding Math_round_def by linarith










text \<open>
  Claim C1, as stated: the position before the scroll correction always satisfies
  \<open>0 \<le> top \<le> containerHeight - markerSize\<close> and \<open>0 \<le> left \<le> containerWidth - markerSize\<close>.
  It fails for a panel smaller than the marker: with a panel of 10 by 10 pixels and a
  marker of 24, \<^verbatim>\<open>Math.max(0, Math.min(x, -14))\<close> is 0, which is above the upper bound.
\<close>

theorem beforeScroll_small_panel_counterexample:
  "\<not> (0 \<le> fst (beforeScroll global_options (anchor 1 (at_rect 20 20 100 40)) panel_10x10 (entry ''button'' (Some ''top-left'') 1))
      \<and> fst (beforeScroll global_options (anchor 1 (at_rect 20 20 100 40)) panel_10x10 (entry ''button'' (Some ''top-left'') 1))
          \<le> offsetHeight panel_10x10 - markerSize global_options
      \<and> 0 \<le> snd (beforeScroll global_options (anchor 1 (at_rect 20 20 100 40)) panel_10x10 (entry ''button'' (Some ''top-left'') 1))
      \<and> snd (beforeScroll global_options (anchor 1 (at_rect 20 20 100 40)) panel_10x10 (entry ''button'' (Some ''top-left'') 1))
          \<le> offsetWidth panel_10x10 - markerSize global_options)"
  by (simp add: example_defs resolver_defs)

text \<open>
  Claim C1, amended: for every element rectangle, panel rectangle, placement, marker
  size and offset, whenever the panel is at least as high and as wide as the marker, the
  position before the scroll correction satisfies \<open>0 \<le> top \<le> containerHeight - markerSize\<close>
  and \<open>0 \<le> left \<le> containerWidth - markerSize\<close>.
\<close>

theorem beforeScroll_within_panel:
  assumes "markerSize opts \<le> offsetHeight leftPanel" and "markerSize opts \<le> offsetWidth leftPanel"
  shows "0 \<le> fst (beforeScroll opts el leftPanel config)
       \<and> fst (beforeScroll opts el leftPanel config) \<le> offsetHeight leftPanel - markerSize opts
       \<and> 0 \<le> snd (beforeScroll opts el leftPanel config)
       \<and> snd (beforeScroll opts el leftPanel config) \<le> offsetWidth leftPanel - markerSize opts"
  using assms by (simp add: beforeScroll_def clamped_def Let_def)

theorem beforeScroll_within_panel_witness:
  "markerSize global_options \<le> offsetHeight panel_400x800
   \<and> markerSize global_options \<le> offsetWidth panel_400x800
   \<and> 0 \<le> fst (beforeScroll global_options (anchor 1 (at_rect 900 20 100 40)) panel_400x800 (entry ''button'' (Some ''bottom-right'') 1))
   \<and> fst (beforeScroll global_options (anchor 1 (at_rect 900 20 100 40)) panel_400x800 (entry ''button'' (Some ''bottom-right'') 1)) \<le> 776
   \<and> 0 \<le> snd (beforeScroll global_options (anchor 1 (at_rect 900 20 100 40)) panel_400x800 (entry ''button'' (Some ''bottom-right'') 1))
   \<and> snd (beforeScroll global_options (anchor 1 (at_rect 900 20 100 40)) panel_400x800 (entry ''button'' (Some ''bottom-right'') 1)) \<le> 376"
  using beforeScroll_within_panel [of global_options panel_400x800 "anchor 1 (at_rect 900 20 100 40)" "entry ''button'' (Some ''bottom-right'') 1"]
  by (simp add: example_defs)

text \<open>
  Claim C2: the resolver takes the position of the element relative to the panel, applies
  to it the adjustment that the specification tabulates for each of the five placements
  (for \<^verbatim>\<open>top-right\<close>, an element of width 100 at relative left 0 with marker size 24
  and offset 8 gets the left coordinate 84 before clamping), and returns components that
  are integers nearest to the clamped and scroll-corrected values.
\<close>

theorem adjusted_follows_table:
  "adjusted opts elementRect containerRect (Some (placement_name pl))
     = spec_adjusted pl (markerSize opts) (markerOffset opts) elementRect
         (spec_relative elementRect containerRect)
   \<and> snd (adjusted global_options (at_rect 20 0 100 40) (at_rect 0 0 400 800) (Some ''top-right'')) = 84
   \<and> \<bar>real_of_int (pos_top (calculateOptimalPosition opts el leftPanel config))
        - fst (scrolled leftPanel (clamped opts leftPanel
            (adjusted opts (boundingClientRect el) (boundingClientRect leftPanel) (preferredPosition config))))\<bar> \<le> 1 / 2
   \<and> \<bar>real_of_int (pos_left (calculateOptimalPosition opts el leftPanel config))
        - snd (scrolled leftPanel (clamped opts leftPanel
            (adjusted opts (boundingClientRect el) (boundingClientRect leftPanel) (preferredPosition config))))\<bar> \<le> 1 / 2"
proof -
  have table: "adjusted opts elementRect containerRect (Some (placement_name pl))
     = spec_adjusted pl (markerSize opts) (markerOffset opts) elementRect
         (spec_relative elementRect containerRect)"
    by (cases pl) (simp_all add: adjusted_def or_default_def spec_relative_def Let_def)
  have ex: "snd (adjusted global_options (at_rect 20 0 100 40) (at_rect 0 0 400 800) (Some ''top-right'')) = 84"
    by (simp add: adjusted_def or_default_def example_defs)
  show ?thesis
    using table ex Math_round_nearest
    by (simp add: calculateOptimalPosition_def beforeScroll_def Let_def)
qed




text \<open>
  Claim C4: for a preferred position that is none of the five enumerated values, a
  missing one included, the resolver returns what it returns for \<^verbatim>\<open>top-left\<close>.
\<close>

theorem unrecognised_placement_is_top_left:
  assumes "pp \<notin> {Some ''top-left'', Some ''top-right'', Some ''bottom-left'', Some ''bottom-right'', Some ''center''}"
  shows "calculateOptimalPosition opts el leftPanel (config\<lparr>preferredPosition := pp\<rparr>)
       = calculateOptimalPosition opts el leftPanel (config\<lparr>preferredPosition := Some ''top-left''\<rparr>)"
proof -
  have "adjusted opts er pr pp = adjusted opts er pr (Some ''top-left'')" for er pr
    using assms by (cases pp) (auto simp: adjusted_def or_default_def Let_def)
  then show ?thesis
    by (simp add: calculateOptimalPosition_def beforeScroll_def)
qed

theorem unrecognised_placement_is_top_left_witness:
  "Some ''middle'' \<notin> {Some ''top-left'', Some ''top-right'', Some ''bottom-left'', Some ''bottom-right'', Some ''center''}
   \<and> calculateOptimalPosition global_options (anchor 1 (at_rect 20 20 100 40)) panel_400x800 (entry ''button'' (Some ''middle'') 1)
     = \<lparr>pos_top = 12, pos_left = 12\<rparr>
   \<and> (None :: string option) \<notin> {Some ''top-left'', Some ''top-right'', Some ''bottom-left'', Some ''bottom-right'', Some ''center''}
   \<and> calculateOptimalPosition global_options (anchor 1 (at_rect 20 20 100 40)) panel_400x800 (entry ''button'' None 1)
     = \<lparr>pos_top = 12, pos_left = 12\<rparr>"
  using unrecognised_placement_is_top_left [of "Some ''middle''" global_options "anchor 1 (at_rect 20 20 100 40)" panel_400x800 "entry ''button'' None 1"]
    unrecognised_placement_is_top_left [of None global_options "anchor 1 (at_rect 20 20 100 40)" panel_400x800 "entry ''button'' None 1"]
  by (simp add: example_defs resolver_defs)

text \<open>
  Claim C5, as stated: for an element as large as the marker, the resolver with placement
  \<^verbatim>\<open>center\<close> returns the position of the element relative to the panel. It fails
  for an element that starts 10 pixels above the panel: the bounds check moves the
  marker to the top edge, 0.
\<close>

theorem center_same_size_counterexample:
  "\<not> (real_of_int (pos_top (calculateOptimalPosition global_options (anchor 1 (at_rect (-10) 30 24 24))
            panel_400x800 (entry ''.badge'' (Some ''center'') 1)))
        = rect_top (boundingClientRect (anchor 1 (at_rect (-10) 30 24 24)))
            - rect_top (boundingClientRect panel_400x800)
      \<and> real_of_int (pos_left (calculateOptimalPosition global_options (anchor 1 (at_rect (-10) 30 24 24))
            panel_400x800 (entry ''.badge'' (Some ''center'') 1)))
        = rect_left (boundingClientRect (anchor 1 (at_rect (-10) 30 24 24)))
            - rect_left (boundingClientRect panel_400x800))"
  by (simp add: example_defs resolver_defs)

text \<open>
  Claim C5, amended: for an element whose width and height both equal the marker size,
  the centering adjustment is zero, so that the position before clamping is the position
  of the element relative to the panel, and the resolver returns that position clamped
  to the panel, shifted by the scroll offset and rounded. The result is the relative
  position itself when that position is integral and within the bounds of the panel and
  the panel is not scrolled.
\<close>

theorem center_same_size:
  assumes "rect_width (boundingClientRect el) = markerSize opts"
    and "rect_height (boundingClientRect el) = markerSize opts"
    and "preferredPosition config = Some ''center''"
  shows "adjusted opts (boundingClientRect el) (boundingClientRect leftPanel) (preferredPosition config)
           = spec_relative (boundingClientRect el) (boundingClientRect leftPanel)
       \<and> calculateOptimalPosition opts el leftPanel config
           = \<lparr>pos_top = Math_round (fst (scrolled leftPanel (clamped opts leftPanel
                  (spec_relative (boundingClientRect el) (boundingClientRect leftPanel))))),
              pos_left = Math_round (snd (scrolled leftPanel (clamped opts leftPanel
                  (spec_relative (boundingClientRect el) (boundingClientRect leftPanel)))))\<rparr>
       \<and> (fst (spec_relative (boundingClientRect el) (boundingClientRect leftPanel)) \<in> \<int>
            \<and> snd (spec_relative (boundingClientRect el) (boundingClientRect leftPanel)) \<in> \<int>
            \<and> 0 \<le> fst (spec_relative (boundingClientRect el) (boundingClientRect leftPanel))
            \<and> fst (spec_relative (boundingClientRect el) (boundingClientRect leftPanel))
                 \<le> offsetHeight leftPanel - markerSize opts
            \<and> 0 \<le> snd (spec_relative (boundingClientRect el) (boundingClientRect leftPanel))
            \<and> snd (spec_relative (boundingClientRect el) (boundingClientRect leftPanel))
                 \<le> offsetWidth leftPanel - markerSize opts
            \<and> scrollTop leftPanel = 0 \<and> scrollLeft leftPanel = 0
          \<longrightarrow> real_of_int (pos_top (calculateOptimalPosition opts el leftPanel config))
                = fst (spec_relative (boundingClientRect el) (boundingClientRect leftPanel))
            \<and> real_of_int (pos_left (calculateOptimalPosition opts el leftPanel config))
                = snd (spec_relative (boundingClientRect el) (boundingClientRect leftPanel)))"
proof -
  let ?rel = "spec_relative (boundingClientRect el) (boundingClientRect leftPanel)"
  have adj: "adjusted opts (boundingClientRect el) (boundingClientRect leftPanel) (preferredPosition config) = ?rel"
    using assms by (simp add: adjusted_def or_default_def spec_relative_def Let_def)
  have calc: "calculateOptimalPosition opts el leftPanel config
           = \<lparr>pos_top = Math_round (fst (scrolled leftPanel (clamped opts leftPanel ?rel))),
              pos_left = Math_round (snd (scrolled leftPanel (clamped opts leftPanel ?rel)))\<rparr>"
    by (simp add: calculateOptimalPosition_def beforeScroll_def adj Let_def)
  have inside: "real_of_int (pos_top (calculateOptimalPosition opts el leftPanel config)) = fst ?rel
            \<and> real_of_int (pos_left (calculateOptimalPosition opts el leftPanel config)) = snd ?rel"
    if h: "fst ?rel \<in> \<int>" "snd ?rel \<in> \<int>" "0 \<le> fst ?rel"
      "fst ?rel \<le> offsetHeight leftPanel - markerSize opts" "0 \<le> snd ?rel"
      "snd ?rel \<le> offsetWidth leftPanel - markerSize opts"
      "scrollTop leftPanel = 0" "scrollLeft leftPanel = 0"
  proof -
    from h(1) obtain i where i: "fst ?rel = real_of_int i" by (auto elim: Ints_cases)
    from h(2) obtain j where j: "snd ?rel = real_of_int j" by (auto elim: Ints_cases)
    have "scrolled leftPanel (clamped opts leftPanel ?rel) = (real_of_int i, real_of_int j)"
      using h(3-8) i j by (simp add: scrolled_def double_add_def clamped_def Let_def)
    then show ?thesis
      using i j by (simp add: calc Math_round_of_int)
  qed
  from adj calc inside show ?thesis by blast
qed

theorem center_same_size_witness:
  "rect_width (boundingClientRect (anchor 1 (at_rect 50 30 24 24))) = markerSize global_options
   \<and> rect_height (boundingClientRect (anchor 1 (at_rect 50 30 24 24))) = markerSize global_options
   \<and> preferredPosition (entry ''.badge'' (Some ''center'') 1) = Some ''center''
   \<and> fst (spec_relative (boundingClientRect (anchor 1 (at_rect 50 30 24 24))) (boundingClientRect panel_400x800)) \<in> \<int>
   \<and> snd (spec_relative (boundingClientRect (anchor 1 (at_rect 50 30 24 24))) (boundingClientRect panel_400x800)) \<in> \<int>
   \<and> 0 \<le> fst (spec_relative (boundingClientRect (anchor 1 (at_rect 50 30 24 24))) (boundingClientRect panel_400x800))
   \<and> fst (spec_relative (boundingClientRect (anchor 1 (at_rect 50 30 24 24))) (boundingClientRect panel_400x800))
        \<le> offsetHeight panel_400x800 - markerSize global_options
   \<and> 0 \<le> snd (spec_relative (boundingClientRect (anchor 1 (at_rect 50 30 24 24))) (boundingClientRect panel_400x800))
   \<and> snd (spec_relative (boundingClientRect (anchor 1 (at_rect 50 30 24 24))) (boundingClientRect panel_400x800))
        \<le> offsetWidth panel_400x800 - markerSize global_options
   \<and> scrollTop panel_400x800 = 0 \<and> scrollLeft panel_400x800 = 0
   \<and> calculateOptimalPosition global_options (anchor 1 (at_rect 50 30 24 24)) panel_400x800
        (entry ''.badge'' (Some ''center'') 1) = \<lparr>pos_top = 50, pos_left = 30\<rparr>"
  using center_same_size [of "anchor 1 (at_rect 50 30 24 24)" global_options "entry ''.badge'' (Some ''center'') 1" panel_400x800]
  by (simp add: example_defs spec_relative_def scrolled_def double_add_def clamped_def
      Math_round_def)

section \<open>Properties of the update pass\<close>

text \<open>
  The pass changes the markers and the console of the document and nothing else.
\<close>

lemma log_static [simp]:
  "pathname (log this msg d) = pathname d"
  "invalid (log this msg d) = invalid d"
  "matching (log this msg d) = matching d"
  "body (log this msg d) = body d"
  "markers (log this msg d) = markers d"
  by (simp_all add: log_def)

lemma createMarker_static [simp]:
  "pathname (createMarker this c p n desc d) = pathname d"
  "invalid (createMarker this c p n desc d) = invalid d"
  "matching (createMarker this c p n desc d) = matching d"
  "body (createMarker this c p n desc d) = body d"
  by (simp_all add: createMarker_def)


lemma clearExistingMarkers_static [simp]:
  "pathname (clearExistingMarkers d) = pathname d"
  "invalid (clearExistingMarkers d) = invalid d"
  "matching (clearExistingMarkers d) = matching d"
  "body (clearExistingMarkers d) = body d"
  "markers (clearExistingMarkers d) = []"
  by (simp_all add: clearExistingMarkers_def)

lemma update_item_static [simp]:
  "pathname (snd (update_item this lp it d)) = pathname d"
  "invalid (snd (update_item this lp it d)) = invalid d"
  "matching (snd (update_item this lp it d)) = matching d"
  "body (snd (update_item this lp it d)) = body d"
  by (simp_all add: update_item_def split: sum.splits option.splits)

lemma update_item_result:
  assumes "update_item this lp it d = (e, d')"
  shows "pathname d' = pathname d \<and> invalid d' = invalid d \<and> matching d' = matching d
       \<and> body d' = body d"
  using update_item_static [of this lp it d] assms by simp

lemma update_items_result:
  "pathname (snd (update_items this lp cfg d)) = pathname d
   \<and> invalid (snd (update_items this lp cfg d)) = invalid d
   \<and> matching (snd (update_items this lp cfg d)) = matching d
   \<and> body (snd (update_items this lp cfg d)) = body d"
proof (induction cfg arbitrary: d)
  case Nil
  show ?case by simp
next
  case (Cons it rest)
  obtain e d' where step: "update_item this lp it d = (e, d')"
    by (cases "update_item this lp it d")
  note same = update_item_result [OF step]
  show ?case
  proof (cases e)
    case None
    have "update_items this lp (it # rest) d = update_items this lp rest d'"
      by (simp add: step None)
    then show ?thesis
      using Cons.IH [of d'] same by metis
  next
    case (Some err)
    have "update_items this lp (it # rest) d = (Some err, d')"
      by (simp add: step Some)
    then show ?thesis
      using same by simp
  qed
qed

lemma update_items_static [simp]:
  "pathname (snd (update_items this lp cfg d)) = pathname d"
  "invalid (snd (update_items this lp cfg d)) = invalid d"
  "matching (snd (update_items this lp cfg d)) = matching d"
  "body (snd (update_items this lp cfg d)) = body d"
  using update_items_result [of this lp cfg d] by simp_all

lemma updateAllMarkers_static [simp]:
  "pathname (snd (updateAllMarkers this d)) = pathname d"
  "invalid (snd (updateAllMarkers this d)) = invalid d"
  "matching (snd (updateAllMarkers this d)) = matching d"
  "body (snd (updateAllMarkers this d)) = body d"
  by (simp_all add: updateAllMarkers_def Let_def split: option.splits)






lemma update_items_append:
  "update_items this lp (xs @ ys) d =
    (case update_items this lp xs d of
       (Some e, d') \<Rightarrow> (Some e, d')
     | (None, d') \<Rightarrow> update_items this lp ys d')"
  by (induction xs arbitrary: d) (simp_all split: prod.splits option.splits)




text \<open>Where every string of the entries is a selector, the loop does not raise.\<close>

lemma first_found_valid:
  "\<forall>q\<in>set ss. \<not> invalid d q \<Longrightarrow> \<exists>r. first_found d ss = Inr r"
  by (induction ss) (auto simp: document_querySelector_def split: option.splits)

lemma findElement_valid:
  "\<forall>q\<in>set (queries sel). \<not> invalid d q \<Longrightarrow> \<exists>r. findElement d sel = Inr r"
  by (cases sel) (auto simp: document_querySelector_def first_found_valid)

lemma update_items_valid:
  "\<forall>it\<in>set items. \<forall>q\<in>set (queries (selector it)). \<not> invalid d q \<Longrightarrow>
   fst (update_items this lp items d) = None"
proof (induction items arbitrary: d)
  case Nil
  show ?case by simp
next
  case (Cons it rest)
  from Cons.prems obtain r where r: "findElement d (selector it) = Inr r"
    using findElement_valid [of "selector it" d] by auto
  obtain d' where s: "update_item this lp it d = (None, d')"
    using r by (cases r) (simp_all add: update_item_def)
  have "invalid d' = invalid d"
    using update_item_result [OF s] by simp
  with Cons.prems have "\<forall>it\<in>set rest. \<forall>q\<in>set (queries (selector it)). \<not> invalid d' q"
    by simp
  from Cons.IH [OF this] show ?case
    by (simp add: s)
qed

lemmas document_defs =
  home_document_def stale_document_def stale_marker_def bodyless_document_def
  body_only_document_def other_document_def container_document_def marker_element_def
  home_config_def malformed_config_def home_system_def quiet_system_def

lemmas pass_defs =
  updateAllMarkers_def getLeftPanel_def panel_selectors_def update_item_def createMarker_def
  new_marker_def clearExistingMarkers_def after_clear_def log_def document_querySelector_def
  getCurrentPageName_def pop_def dashes_to_spaces_def

text \<open>
  Two cases beside the ones of the claim below. An entry whose selector is the empty
  string makes \<^verbatim>\<open>document.querySelector\<close> raise, which ends the pass after the
  first marker. With \<^verbatim>\<open>debugMode\<close> off, as it is by default, the log writes nothing.
\<close>

lemma malformed_selector_halts:
  "fst (update_items home_system panel_400x800 malformed_config home_document)
     = Some (SyntaxError [])
   \<and> map textContent (markers (snd (update_items home_system panel_400x800 malformed_config
        home_document))) = [1]"
  by (simp add: document_defs pass_defs example_defs)

lemma quiet_log:
  "console (snd (updateAllMarkers quiet_system other_document)) = []"
  by (simp add: document_defs pass_defs example_defs)

text \<open>
  Claim C6: an unregistered page identifier, a missing container and a missing anchor
  element each make the update pass call its log and skip, and none of them raises an
  exception. For an unregistered page and for a missing container the pass returns
  after the log call, without exception and with the markers as they were. An entry
  whose anchor is not found is logged without exception, and the pass goes on with the
  entries after it, wherever in the configuration the entry stands. A pass on a page
  whose entries all have selectors returns without exception, whatever is missing. The
  log writes to the console when \<^verbatim>\<open>debugMode\<close> is set, as it is for the global
  instance.
\<close>

theorem update_pass_skips:
  "(pageConfigs this (getCurrentPageName (pathname d)) = None \<longrightarrow>
      updateAllMarkers this d
        = (None, log this (NoConfiguration (getCurrentPageName (pathname d))) d)
      \<and> markers (snd (updateAllMarkers this d)) = markers d)
   \<and> (pageConfigs this (getCurrentPageName (pathname d')) = Some config \<and> getLeftPanel d' = None \<longrightarrow>
      updateAllMarkers this d' = (None, log this LeftPanelNotFound d')
      \<and> markers (snd (updateAllMarkers this d')) = markers d')
   \<and> (findElement d'' (selector it) = Inr None \<longrightarrow>
      update_item this leftPanel it d'' = (None, log this (ElementNotFound (selector it)) d'')
      \<and> update_items this leftPanel (it # rest) d''
          = update_items this leftPanel rest (log this (ElementNotFound (selector it)) d''))
   \<and> (update_items this leftPanel before d0 = (None, d1)
       \<and> findElement d1 (selector it') = Inr None \<longrightarrow>
      update_items this leftPanel (before @ it' # rest') d0
        = update_items this leftPanel rest' (log this (ElementNotFound (selector it')) d1))
   \<and> (pageConfigs this (getCurrentPageName (pathname d2)) = Some config'
       \<and> (\<forall>it\<in>set config'. \<forall>q\<in>set (queries (selector it)). \<not> invalid d2 q) \<longrightarrow>
      fst (updateAllMarkers this d2) = None)
   \<and> (debugMode (this_options this) \<longrightarrow> console (log this msg d) = console d @ [msg])"
proof -
  have unregistered: "updateAllMarkers this d
        = (None, log this (NoConfiguration (getCurrentPageName (pathname d))) d)
      \<and> markers (snd (updateAllMarkers this d)) = markers d"
    if "pageConfigs this (getCurrentPageName (pathname d)) = None"
    using that by (simp add: updateAllMarkers_def Let_def)
  have no_panel: "updateAllMarkers this d' = (None, log this LeftPanelNotFound d')
      \<and> markers (snd (updateAllMarkers this d')) = markers d'"
    if "pageConfigs this (getCurrentPageName (pathname d')) = Some config" and "getLeftPanel d' = None"
    using that by (simp add: updateAllMarkers_def Let_def)
  have no_anchor: "update_item this leftPanel it d'' = (None, log this (ElementNotFound (selector it)) d'')
      \<and> update_items this leftPanel (it # rest) d''
          = update_items this leftPanel rest (log this (ElementNotFound (selector it)) d'')"
    if "findElement d'' (selector it) = Inr None"
    using that by (simp add: update_item_def)
  have later: "update_items this leftPanel (before @ it' # rest') d0
        = update_items this leftPanel rest' (log this (ElementNotFound (selector it')) d1)"
    if "update_items this leftPanel before d0 = (None, d1)" and "findElement d1 (selector it') = Inr None"
    using that by (simp add: update_items_append update_item_def)
  have valid: "fst (updateAllMarkers this d2) = None"
    if c: "pageConfigs this (getCurrentPageName (pathname d2)) = Some config'"
      and v: "\<forall>it\<in>set config'. \<forall>q\<in>set (queries (selector it)). \<not> invalid d2 q"
  proof (cases "getLeftPanel d2")
    case None
    with c show ?thesis by (simp add: updateAllMarkers_def Let_def)
  next
    case (Some lp)
    from v have "\<forall>it\<in>set config'. \<forall>q\<in>set (queries (selector it)).
        \<not> invalid (clearExistingMarkers d2) q" by simp
    then have "fst (update_items this (after_clear lp) config' (clearExistingMarkers d2)) = None"
      by (rule update_items_valid)
    with c Some show ?thesis by (simp add: updateAllMarkers_def Let_def)
  qed
  have logged: "console (log this msg d) = console d @ [msg]" if "debugMode (this_options this)"
    using that by (simp add: log_def)
  from unregistered no_panel no_anchor later valid logged show ?thesis by blast
qed

theorem update_pass_skips_witness:
  "pageConfigs home_system (getCurrentPageName (pathname other_document)) = None
   \<and> fst (updateAllMarkers home_system other_document) = None
   \<and> markers (snd (updateAllMarkers home_system other_document)) = []
   \<and> console (snd (updateAllMarkers home_system other_document)) = [NoConfiguration ''9 9 other'']
   \<and> pageConfigs home_system (getCurrentPageName (pathname bodyless_document)) = Some home_config
   \<and> getLeftPanel bodyless_document = None
   \<and> fst (updateAllMarkers home_system bodyless_document) = None
   \<and> markers (snd (updateAllMarkers home_system bodyless_document)) = []
   \<and> console (snd (updateAllMarkers home_system bodyless_document)) = [LeftPanelNotFound]
   \<and> findElement home_document (selector (entry ''.swiper-container'' (Some ''center'') 2)) = Inr None
   \<and> fst (update_items home_system panel_400x800 [entry ''button.p-2'' (Some ''top-right'') 1]
        home_document) = None
   \<and> findElement
        (snd (update_items home_system panel_400x800 [entry ''button.p-2'' (Some ''top-right'') 1]
           home_document))
        (selector (entry ''.swiper-container'' (Some ''center'') 2)) = Inr None
   \<and> map textContent (markers (snd (update_items home_system panel_400x800
        ([entry ''button.p-2'' (Some ''top-right'') 1] @ entry ''.swiper-container'' (Some ''center'') 2
           # [entry ''.banner'' (Some ''center'') 3]) home_document))) = [1, 3]
   \<and> pageConfigs home_system (getCurrentPageName (pathname home_document)) = Some home_config
   \<and> fst (updateAllMarkers home_system home_document) = None
   \<and> debugMode (this_options home_system)"
  using update_pass_skips [of home_system other_document bodyless_document home_config home_document
      "entry ''.swiper-container'' (Some ''center'') 2" panel_400x800
      "[entry ''.banner'' (Some ''center'') 3]"
      "[entry ''button.p-2'' (Some ''top-right'') 1]" home_document
      "snd (update_items home_system panel_400x800 [entry ''button.p-2'' (Some ''top-right'') 1]
          home_document)"
      "entry ''.swiper-container'' (Some ''center'') 2" "[entry ''.banner'' (Some ''center'') 3]"
      home_document home_config "NoConfiguration ''9 9 other''"]
  by (simp add: document_defs pass_defs example_defs)




text \<open>
  Claim C10, as stated: \<^verbatim>\<open>getLeftPanel\<close> returns an element for every document, so
  the branch \<^verbatim>\<open>Left panel not found\<close> of \<^verbatim>\<open>updateAllMarkers\<close> cannot be reached.
  It fails for a document in which no candidate selector matches and
  \<^verbatim>\<open>document.body\<close> is null: \<^verbatim>\<open>getLeftPanel\<close> returns null and the pass takes that
  branch, which the code keeps for this case.
\<close>

theorem getLeftPanel_null_counterexample:
  "\<not> (getLeftPanel bodyless_document \<noteq> None)
   \<and> updateAllMarkers home_system bodyless_document
       = (None, log home_system LeftPanelNotFound bodyless_document)"
  by (simp add: document_defs pass_defs example_defs)

text \<open>
  Claim C10, amended: for every document that has a body element, \<^verbatim>\<open>getLeftPanel\<close>
  returns an element, the body when none of the candidate selectors matches, and
  \<^verbatim>\<open>updateAllMarkers\<close> on a registered page does not take the branch
  \<^verbatim>\<open>Left panel not found\<close> but clears the markers and processes the configuration.
\<close>

theorem getLeftPanel_with_body:
  assumes "body d = Some b"
  shows "\<exists>leftPanel. getLeftPanel d = Some leftPanel
           \<and> (first_match d panel_selectors = None \<longrightarrow> leftPanel = b)
           \<and> (\<forall>config. pageConfigs this (getCurrentPageName (pathname d)) = Some config \<longrightarrow>
                 updateAllMarkers this d
                   = update_items this (after_clear leftPanel) config (clearExistingMarkers d))"
  using assms by (auto simp: getLeftPanel_def updateAllMarkers_def Let_def split: option.splits)

theorem getLeftPanel_with_body_witness:
  "body body_only_document = Some (anchor 3 (at_rect 0 0 1200 800))
   \<and> first_match body_only_document panel_selectors = None
   \<and> getLeftPanel body_only_document = Some (anchor 3 (at_rect 0 0 1200 800))
   \<and> pageConfigs home_system (getCurrentPageName (pathname body_only_document)) = Some home_config
   \<and> console (snd (updateAllMarkers home_system body_only_document))
       = [ElementNotFound (Query ''button.p-2''), ElementNotFound (Query ''.swiper-container''),
          ElementNotFound (Query ''.banner'')]"
  using getLeftPanel_with_body [of body_only_document "anchor 3 (at_rect 0 0 1200 800)" home_system]
  by (simp add: document_defs pass_defs example_defs)

section \<open>Properties of the listeners\<close>

lemmas timer_defs =
  resize_listener_def mutation_callback_def debounce_def executedFunction_def setTimeout_def
  clearTimeout_def fire_due_def run_task_def idle_browser_def

lemma elapse_idle:
  "timers b = [] \<Longrightarrow>
   timers (run (map Elapse dts) b) = [] \<and> passes (run (map Elapse dts) b) = passes b"
  by (induction dts arbitrary: b) (simp_all add: fire_due_def)

text \<open>
  Claim C7 says that a recompute follows each resize or mutation event after the
  debounce delay. The listeners only build the debounced function and return; nothing
  calls it. So a resize or a mutation leaves the browser as it was, with no timer set,
  and however much time passes afterwards no update pass runs. Had the function that
  \<^verbatim>\<open>debounce\<close> returns been called, a timer for 250 ms would be pending and the pass
  would run when it fires.
\<close>

theorem listeners_schedule_nothing:
  "dispatch Resize b = b
   \<and> dispatch Mutation b = b
   \<and> passes (run (Resize # map Elapse dts) idle_browser) = 0
   \<and> passes (run (Mutation # map Elapse dts) idle_browser) = 0
   \<and> timers (snd (executedFunction (fst (resize_listener idle_browser)) idle_browser))
        = [(1, 250, RunUpdateAllMarkers)]
   \<and> passes (dispatch (Elapse 250)
        (snd (executedFunction (fst (resize_listener idle_browser)) idle_browser))) = 1"
proof -
  have idle: "timers idle_browser = []" "passes idle_browser = 0"
    by (simp_all add: idle_browser_def)
  have quiet: "passes (run (map Elapse dts) idle_browser) = 0"
    using elapse_idle [OF idle(1), of dts] idle(2) by simp
  have called: "timers (snd (executedFunction (fst (resize_listener idle_browser)) idle_browser))
        = [(1, 250, RunUpdateAllMarkers)]"
    by (simp add: timer_defs)
  have fired: "passes (dispatch (Elapse 250)
        (snd (executedFunction (fst (resize_listener idle_browser)) idle_browser))) = 1"
    by (simp add: timer_defs)
  show ?thesis
    using quiet called fired by (simp add: resize_listener_def mutation_callback_def)
qed

section \<open>Properties of the page name\<close>

text \<open>
  \<^verbatim>\<open>split\<close> and \<^verbatim>\<open>pop\<close> give the part of the path after its last separator; a
  pattern whose first character does not occur again in it is removed from the end of a
  string by \<^verbatim>\<open>replace\<close> when it does not occur before.
\<close>

lemma js_split_nonempty: "js_split c s \<noteq> []"
  by (induction s) (simp_all split: list.splits)

lemma js_split_tl: "c \<in> set s \<Longrightarrow> tl (js_split c s) \<noteq> []"
  by (induction s) (auto simp: js_split_nonempty split: list.splits)

lemma js_split_no_sep: "c \<notin> set s \<Longrightarrow> js_split c s = [s]"
  by (induction s) auto

lemma last_js_split_after: "last (js_split c (a @ c # b)) = last (js_split c b)"
proof (induction a)
  case Nil
  then show ?case by (simp add: js_split_nonempty)
next
  case (Cons x a)
  show ?case
  proof (cases "x = c")
    case True
    with Cons show ?thesis by (simp add: js_split_nonempty)
  next
    case False
    have "tl (js_split c (a @ c # b)) \<noteq> []"
      by (rule js_split_tl) simp
    then obtain w v ws where "js_split c (a @ c # b) = w # v # ws"
      by (cases "js_split c (a @ c # b)") (auto simp: neq_Nil_conv)
    with False Cons show ?thesis by simp
  qed
qed

lemma pop_js_split: "pop (js_split c s) = rev (takeWhile (\<lambda>x. x \<noteq> c) (rev s))"
proof (cases "c \<in> set s")
  case True
  then obtain a b where s: "s = a @ c # b" and b: "c \<notin> set b"
    by (meson split_list_last)
  have "takeWhile (\<lambda>x. x \<noteq> c) (rev b @ c # rev a)
      = rev b @ takeWhile (\<lambda>x. x \<noteq> c) (c # rev a)"
    by (rule takeWhile_append2) (use b in auto)
  then have "takeWhile (\<lambda>x. x \<noteq> c) (rev b @ c # rev a) = rev b"
    by simp
  then show ?thesis
    using s b by (simp add: pop_def last_js_split_after js_split_no_sep)
next
  case False
  then have tw: "takeWhile (\<lambda>x. x \<noteq> c) (rev s) = rev s"
    by (auto simp: takeWhile_eq_all_conv)
  show ?thesis
    unfolding pop_def js_split_no_sep [OF False] tw by simp
qed

lemma occurs_iff: "occurs pat s \<longleftrightarrow> (\<exists>a b. s = a @ pat @ b)"
proof (induction s)
  case Nil
  then show ?case by auto
next
  case (Cons x s)
  show ?case
  proof
    assume "occurs pat (x # s)"
    then consider "prefix pat (x # s)" | "occurs pat s" by auto
    then show "\<exists>a b. x # s = a @ pat @ b"
    proof cases
      case 1
      then obtain b where "x # s = pat @ b" by (auto simp: prefix_def)
      then have "x # s = [] @ pat @ b" by simp
      then show ?thesis by blast
    next
      case 2
      with Cons obtain a b where "s = a @ pat @ b" by blast
      then have "x # s = (x # a) @ pat @ b" by simp
      then show ?thesis by blast
    qed
  next
    assume "\<exists>a b. x # s = a @ pat @ b"
    then obtain a b where ab: "x # s = a @ pat @ b" by blast
    show "occurs pat (x # s)"
    proof (cases a)
      case Nil
      with ab have "prefix pat (x # s)" by (simp add: prefix_def)
      then show ?thesis by simp
    next
      case (Cons y a')
      with ab have "s = a' @ pat @ b" by simp
      with Cons.IH have "occurs pat s" by blast
      then show ?thesis by simp
    qed
  qed
qed

lemma occurs_tail: "occurs (u @ v) s \<Longrightarrow> occurs v s"
proof -
  assume "occurs (u @ v) s"
  then obtain a b where "s = a @ (u @ v) @ b" by (auto simp: occurs_iff)
  then have "s = (a @ u) @ v @ b" by simp
  then show ?thesis unfolding occurs_iff by blast
qed

lemma js_replace_absent: "\<not> occurs pat s \<Longrightarrow> js_replace pat rep s = s"
  by (induction s) auto

lemma no_straddle:
  assumes "p \<notin> set ps" and "\<not> prefix (p # ps) s" and "s \<noteq> []"
  shows "\<not> prefix (p # ps) (s @ p # ps)"
proof
  assume "prefix (p # ps) (s @ p # ps)"
  with assms(2) obtain us where us: "p # ps = s @ us" and pre: "prefix us (p # ps)"
    by (auto simp: prefix_append)
  from assms(3) us obtain s' where s': "s = p # s'" "ps = s' @ us"
    by (cases s) auto
  show False
  proof (cases us)
    case Nil
    with us assms(2) show False by simp
  next
    case (Cons u us')
    with pre have "u = p" by simp
    with Cons s'(2) assms(1) show False by simp
  qed
qed

lemma js_replace_suffix:
  "p \<notin> set ps \<Longrightarrow> \<not> occurs (p # ps) stem \<Longrightarrow> js_replace (p # ps) [] (stem @ p # ps) = stem"
proof (induction stem)
  case Nil
  then show ?case by simp
next
  case (Cons x xs)
  then have "\<not> prefix (p # ps) (x # xs)" and rest: "\<not> occurs (p # ps) xs" by auto
  then have "\<not> prefix (p # ps) ((x # xs) @ p # ps)"
    using Cons.prems(1) by (intro no_straddle) simp_all
  then have "js_replace (p # ps) [] ((x # xs) @ p # ps) = x # js_replace (p # ps) [] (xs @ p # ps)"
    by auto
  with Cons.IH [OF Cons.prems(1) rest] show ?case by simp
qed

lemma unique_occurrence:
  "p \<notin> set ps \<Longrightarrow> \<not> occurs (p # ps) stem \<Longrightarrow> stem @ p # ps = a @ (p # ps) @ b \<Longrightarrow> b = []"
proof (induction stem arbitrary: a)
  case Nil
  from Nil.prems(3) have "length ([] @ p # ps) = length (a @ (p # ps) @ b)"
    by (rule arg_cong)
  then show ?case by simp
next
  case (Cons x xs)
  from Cons.prems(2) have np: "\<not> prefix (p # ps) (x # xs)" and rest: "\<not> occurs (p # ps) xs" by auto
  show ?case
  proof (cases a)
    case Nil
    with Cons.prems(3) have "prefix (p # ps) ((x # xs) @ p # ps)"
      by (simp add: prefix_def)
    moreover have "\<not> prefix (p # ps) ((x # xs) @ p # ps)"
      using Cons.prems(1) np by (intro no_straddle) simp_all
    ultimately show ?thesis by blast
  next
    case (Cons y a')
    with Cons.prems(3) have "xs @ p # ps = a' @ (p # ps) @ b" by simp
    from Cons.IH [OF Cons.prems(1) rest this] show ?thesis .
  qed
qed

lemma strip_matches_replace:
  assumes "\<not> occurs ''.html'' (spec_strip_suffix seg)"
  shows "js_replace ''.html'' [] (js_replace ''_N.html'' [] seg) = spec_strip_suffix seg"
proof -
  have dot: "CHR ''.'' \<notin> set ''html''" and us: "CHR ''_'' \<notin> set ''N.html''" by simp_all
  consider (N) "suffix ''_N.html'' seg"
    | (H) "\<not> suffix ''_N.html'' seg" "suffix ''.html'' seg"
    | (none) "\<not> suffix ''_N.html'' seg" "\<not> suffix ''.html'' seg" by blast
  then show ?thesis
  proof cases
    case N
    then obtain stem where seg: "seg = stem @ ''_N.html''" by (auto simp: suffix_def)
    with N have strip: "spec_strip_suffix seg = stem" by (simp add: spec_strip_suffix_def)
    with assms have no: "\<not> occurs ''.html'' stem" by simp
    have "\<not> occurs (''_N'' @ ''.html'') stem"
      using no occurs_tail by blast
    then have "\<not> occurs ''_N.html'' stem" by simp
    then have "js_replace ''_N.html'' [] seg = stem"
      unfolding seg using us js_replace_suffix [of "CHR ''_''" "''N.html''" stem] by simp
    then show ?thesis
      using no strip by (simp add: js_replace_absent)
  next
    case H
    then obtain stem where seg: "seg = stem @ ''.html''" by (auto simp: suffix_def)
    with H have strip: "spec_strip_suffix seg = stem" by (simp add: spec_strip_suffix_def)
    with assms have no: "\<not> occurs ''.html'' stem" by simp
    have "\<not> occurs ''_N.html'' seg"
    proof
      assume "occurs ''_N.html'' seg"
      then obtain a b where ab: "seg = a @ ''_N.html'' @ b" by (auto simp: occurs_iff)
      then have "stem @ ''.html'' = (a @ ''_N'') @ ''.html'' @ b" using seg by simp
      then have "b = []"
        using unique_occurrence [of "CHR ''.''" "''html''" stem "a @ ''_N''" b] no dot by simp
      with ab have "suffix ''_N.html'' seg" by (simp add: suffix_def)
      with H show False by blast
    qed
    then have "js_replace ''_N.html'' [] seg = seg" by (rule js_replace_absent)
    moreover have "js_replace ''.html'' [] seg = stem"
      unfolding seg using dot no js_replace_suffix [of "CHR ''.''" "''html''" stem] by simp
    ultimately show ?thesis using strip by simp
  next
    case none
    then have strip: "spec_strip_suffix seg = seg" by (simp add: spec_strip_suffix_def)
    with assms have no: "\<not> occurs ''.html'' seg" by simp
    have "\<not> occurs (''_N'' @ ''.html'') seg"
      using no occurs_tail by blast
    then have "\<not> occurs ''_N.html'' seg" by simp
    then show ?thesis using no strip by (simp add: js_replace_absent)
  qed
qed

text \<open>
  Claim C8, as stated: for every path, the lookup key is the last segment of the path
  with the known suffix (\<^verbatim>\<open>_N.html\<close> or \<^verbatim>\<open>.html\<close>) stripped and every dash
  replaced by a space. \<^verbatim>\<open>getCurrentPageName\<close> removes the first occurrence of each
  text, wherever it stands: \<^verbatim>\<open>a.html.bak\<close> becomes \<^verbatim>\<open>a.bak\<close>, although it has no
  known suffix. The key of \<^verbatim>\<open>addDynamicMarkers\<close> in the second script keeps its
  dashes: \<^verbatim>\<open>3-4-sell_N.html\<close> becomes \<^verbatim>\<open>3-4-sell\<close>.
\<close>

theorem page_name_counterexample:
  "getCurrentPageName ''/mockup/a.html.bak'' \<noteq> spec_pageIdentifier ''/mockup/a.html.bak''
   \<and> currentPage ''/mockup/3-4-sell_N.html'' \<noteq> spec_pageIdentifier ''/mockup/3-4-sell_N.html''"
  by (simp add: getCurrentPageName_def currentPage_def spec_pageIdentifier_def pop_def
      dashes_to_spaces_def spec_last_segment_def spec_strip_suffix_def suffix_def)

text \<open>
  Claim C8, amended: for every path, the lookup key of \<^verbatim>\<open>getCurrentPageName\<close> is the
  last segment of the path with the first occurrence of \<^verbatim>\<open>_N.html\<close> and then the
  first occurrence of \<^verbatim>\<open>.html\<close> removed and every dash replaced by a space, and the
  lookup key of \<^verbatim>\<open>addDynamicMarkers\<close> is the last segment with the first occurrence
  of \<^verbatim>\<open>_N.html\<close> removed. When \<^verbatim>\<open>.html\<close> does not occur in the segment before
  its known suffix, the key of \<^verbatim>\<open>getCurrentPageName\<close> is the segment with the known
  suffix stripped and every dash replaced by a space.
\<close>

theorem page_name_is_stripped_segment:
  "getCurrentPageName path
     = dashes_to_spaces (js_replace ''.html'' [] (js_replace ''_N.html'' [] (spec_last_segment path)))
   \<and> currentPage path = js_replace ''_N.html'' [] (spec_last_segment path)
   \<and> (\<not> occurs ''.html'' (spec_strip_suffix (spec_last_segment path)) \<longrightarrow>
        getCurrentPageName path = spec_pageIdentifier path)"
  using strip_matches_replace [of "spec_last_segment path"]
  by (simp add: getCurrentPageName_def currentPage_def spec_pageIdentifier_def pop_js_split
      spec_last_segment_def)

theorem page_name_is_stripped_segment_witness:
  "\<not> occurs ''.html'' (spec_strip_suffix (spec_last_segment ''/mockup/2-1-home_N.html''))
   \<and> getCurrentPageName ''/mockup/2-1-home_N.html'' = ''2 1 home''
   \<and> spec_pageIdentifier ''/mockup/2-1-home_N.html'' = ''2 1 home''"
  using page_name_is_stripped_segment [of "''/mockup/2-1-home_N.html''"]
  by (simp add: spec_pageIdentifier_def dashes_to_spaces_def spec_last_segment_def
      spec_strip_suffix_def suffix_def)

end
